theory Spec2Isabelle
  imports Complex_Main
begin

section \<open>The CMS data client: query builder\<close>

text \<open>
  A shallow embedding of \<^verbatim>\<open>src/index.js\<close>. The class \<^verbatim>\<open>CMSClient\<close> is a record of its
  instance fields; every method takes the client and returns the updated client, since the
  JavaScript mutates \<^verbatim>\<open>this\<close> in place and returns it for chaining. A property that is
  absent from a JavaScript object reads as \<^verbatim>\<open>undefined\<close>; such a property is \<open>None\<close> here.

  Argument types follow the JSDoc of the source: column names and filter values are strings,
  the limit is a number (an integer here: fractions and NaN are outside the model), and the
  options object carries \<^verbatim>\<open>output\<close> and \<^verbatim>\<open>includeMetadata\<close>. Strings are byte strings.
\<close>

subsection \<open>Errors\<close>

text \<open>
  The source raises \<^verbatim>\<open>new Error(msg)\<close> itself; \<^verbatim>\<open>TypeError\<close> and \<^verbatim>\<open>SyntaxError\<close> come from
  the language (a method call on \<^verbatim>\<open>null\<close>, \<^verbatim>\<open>JSON.parse\<close>). The HTTP collaborator rejects
  with an error value of its own choosing.
\<close>

datatype error = Error string | TypeError string | SyntaxError string

text \<open>\<^verbatim>\<open>String(err)\<close>, as \<^verbatim>\<open>Error.prototype.toString\<close> computes it from name and message.\<close>

definition name_message :: "string \<Rightarrow> string \<Rightarrow> string" where
  "name_message n m = (if m = [] then n else n @ '': '' @ m)"

fun error_toString :: "error \<Rightarrow> string" where
  "error_toString (Error m) = name_message ''Error'' m"
| "error_toString (TypeError m) = name_message ''TypeError'' m"
| "error_toString (SyntaxError m) = name_message ''SyntaxError'' m"

subsection \<open>Rendering values inside template literals\<close>

definition digit_char :: "nat \<Rightarrow> char" where
  "digit_char d = ''0123456789'' ! (d mod 10)"

fun show_nat :: "nat \<Rightarrow> string" where
  "show_nat n = (if n < 10 then [digit_char n] else show_nat (n div 10) @ [digit_char n])"

declare show_nat.simps [simp del]

text \<open>The decimal text of an integer, as \<^verbatim>\<open>${n}\<close> gives it for a number below \<open>10\<^sup>2\<^sup>1\<close>.\<close>

definition show_int :: "int \<Rightarrow> string" where
  "show_int i = (if i < 0 then CHR ''-'' # show_nat (nat (- i)) else show_nat (nat i))"

text \<open>\<^verbatim>\<open>${x}\<close> for a property that holds a string or is absent.\<close>

definition tpl_string :: "string option \<Rightarrow> string" where
  "tpl_string v = (case v of None \<Rightarrow> ''undefined'' | Some s \<Rightarrow> s)"

definition tpl_number :: "int option \<Rightarrow> string" where
  "tpl_number v = (case v of None \<Rightarrow> ''undefined'' | Some n \<Rightarrow> show_int n)"

text \<open>\<^verbatim>\<open>x !== ''\<close>: an absent property is \<^verbatim>\<open>undefined\<close>, which is not the empty string.\<close>

definition not_empty_string :: "string option \<Rightarrow> bool" where
  "not_empty_string v = (case v of None \<Rightarrow> True | Some s \<Rightarrow> s \<noteq> [])"

text \<open>\<^verbatim>\<open>x > 0\<close>: \<^verbatim>\<open>undefined\<close> converts to NaN, and every comparison with NaN is false.\<close>

definition greater_zero :: "int option \<Rightarrow> bool" where
  "greater_zero v = (case v of None \<Rightarrow> False | Some n \<Rightarrow> 0 < n)"

text \<open>\<^verbatim>\<open>Array.prototype.join()\<close> with the default separator, on an array of strings.\<close>

fun join :: "string list \<Rightarrow> string" where
  "join [] = []"
| "join [x] = x"
| "join (x # y # ys) = x @ CHR '','' # join (y # ys)"

subsection \<open>Data model\<close>

text \<open>The options object given to the factory; an omitted options argument has both absent.\<close>

record Options =
  "output" :: "string option"
  includeMetadata :: "bool option"

text \<open>
  \<^verbatim>\<open>this.fetchOptions\<close>. The constructor spreads the options into it, so it extends them. The
  key \<^verbatim>\<open>filter\<close> is written \<open>filter'\<close>.
\<close>

record FetchOptions = Options +
  columns :: "string option"
  filter' :: "string option"
  limit :: "int option"
  resource :: "string option"
  column :: "string option"

text \<open>
  Values the client stores from a response: JSON values, and the strings or \<^verbatim>\<open>null\<close> that a
  header lookup returns. Numbers are exact rationals (rounding to a double is outside the
  model); an object is its list of members in order.
\<close>

datatype jsval =
    JNull
  | JBool bool
  | JNumber rat
  | JString string
  | JArray "jsval list"
  | JObject "(string \<times> jsval) list"

text \<open>\<^verbatim>\<open>this.fetched\<close>; the key \<^verbatim>\<open>fields\<close> is written \<open>fields'\<close>.\<close>

record Fetched =
  metadata :: jsval
  fields' :: jsval
  data :: jsval

record CMSClient =
  resourceId :: string
  isOutdated :: jsval
  lastModified :: jsval
  type :: string
  url :: string
  fetchOptions :: FetchOptions
  fetched :: Fetched

subsection \<open>Constructor and factory\<close>

text \<open>\<^verbatim>\<open>options?.output || 'json'\<close>: an absent or empty output is falsy.\<close>

definition output_or_json :: "Options \<Rightarrow> string" where
  "output_or_json options =
     (case output options of None \<Rightarrow> ''json'' | Some s \<Rightarrow> if s = [] then ''json'' else s)"

definition CMSClient_constructor :: "string \<Rightarrow> Options \<Rightarrow> CMSClient" where
  "CMSClient_constructor rid options =
     \<lparr> resourceId = rid,
       isOutdated = JBool False,
       lastModified = JString [],
       type = output_or_json options,
       url = ''https://data.cms.gov/resource/'' @ rid @ ''.'' @ output_or_json options,
       fetchOptions =
         \<lparr> output = output options,
           includeMetadata = includeMetadata options,
           columns = Some [],
           filter' = Some [],
           limit = Some 0,
           resource = Some [],
           column = None \<rparr>,
       fetched = \<lparr> metadata = JObject [], fields' = JArray [], data = JObject [] \<rparr> \<rparr>"

text \<open>
  \<^verbatim>\<open>createClient\<close>: an empty identifier is falsy and is refused. (The identifier is a string
  here, so the \<^verbatim>\<open>typeof\<close> test always passes.)
\<close>

definition createClient :: "string \<Rightarrow> Options \<Rightarrow> error + CMSClient" where
  "createClient rid options =
     (if rid = [] then Inl (Error (''Invalid argument: '' @ rid))
      else Inr (CMSClient_constructor rid options))"

definition no_options :: Options where
  "no_options = \<lparr> output = None, includeMetadata = None \<rparr>"

subsection \<open>Builder methods\<close>

text \<open>The argument of \<^verbatim>\<open>select\<close>: a string, an array of strings, or anything else.\<close>

datatype columns_arg = Str string | Arr "string list" | Other

fun CMSClient_select :: "columns_arg \<Rightarrow> CMSClient \<Rightarrow> CMSClient" where
  "CMSClient_select (Str s) c = c\<lparr>fetchOptions := (fetchOptions c)\<lparr>columns := Some s\<rparr>\<rparr>"
| "CMSClient_select (Arr xs) c = c\<lparr>fetchOptions := (fetchOptions c)\<lparr>columns := Some (join xs)\<rparr>\<rparr>"
| "CMSClient_select Other c = c"

definition missing_params :: error where
  "missing_params = Error ''Missing params: include column & resource to be filtered''"

text \<open>
  \<^verbatim>\<open>filter\<close> throws before it assigns anything; otherwise it replaces the whole of
  \<^verbatim>\<open>fetchOptions\<close> by an object with the two keys \<^verbatim>\<open>column\<close> and \<^verbatim>\<open>resource\<close>. The result
  is the client after the call and the error thrown, if any.
\<close>

definition CMSClient_filter :: "string \<Rightarrow> string \<Rightarrow> CMSClient \<Rightarrow> CMSClient \<times> error option" where
  "CMSClient_filter col res c =
     (if res = [] \<or> col = [] then (c, Some missing_params)
      else (c\<lparr>fetchOptions :=
                \<lparr> output = None, includeMetadata = None, columns = None, filter' = None,
                  limit = None, resource = Some res, column = Some col \<rparr>\<rparr>,
            None))"

definition CMSClient_limit :: "int \<Rightarrow> CMSClient \<Rightarrow> CMSClient" where
  "CMSClient_limit limitResource c =
     (if limitResource \<noteq> 0 then c\<lparr>fetchOptions := (fetchOptions c)\<lparr>limit := Some limitResource\<rparr>\<rparr>
      else c)"

subsection \<open>Request composer\<close>

text \<open>\<^verbatim>\<open>_queryBuilder\<close>, one assignment to \<^verbatim>\<open>this.url\<close> after the other.\<close>

definition CMSClient_queryBuilder :: "CMSClient \<Rightarrow> CMSClient" where
  "CMSClient_queryBuilder c =
     (let fo = fetchOptions c;
          u1 = url c @ ''?'';
          u2 = (if greater_zero (limit fo) then u1 @ ''$limit='' @ tpl_number (limit fo) else u1);
          u3 = (if not_empty_string (filter' fo) \<and> not_empty_string (resource fo)
                then u2 @ ''&'' @ tpl_string (column fo) @ ''='' @ tpl_string (resource fo)
                else u2);
          u4 = (if not_empty_string (columns fo)
                then (if last u3 = CHR ''?''
                      then u3 @ ''$select='' @ tpl_string (columns fo)
                      else u3 @ ''&$select='' @ tpl_string (columns fo))
                else u3)
      in c\<lparr>url := u4\<rparr>)"

subsection \<open>The query string as a function of the configuration\<close>

text \<open>
  What \<^verbatim>\<open>_queryBuilder\<close> appends after the \<^verbatim>\<open>?\<close>, written as one function of
  \<^verbatim>\<open>fetchOptions\<close>: the limit, then the filter pair behind a \<^verbatim>\<open>&\<close>, then the selected
  columns, behind a \<^verbatim>\<open>&\<close> unless the text so far ends in \<^verbatim>\<open>?\<close>.
\<close>

definition limit_param :: "FetchOptions \<Rightarrow> string" where
  "limit_param fo = (if greater_zero (limit fo) then ''$limit='' @ tpl_number (limit fo) else [])"

definition filter_param :: "FetchOptions \<Rightarrow> string" where
  "filter_param fo =
     (if not_empty_string (filter' fo) \<and> not_empty_string (resource fo)
      then ''&'' @ tpl_string (column fo) @ ''='' @ tpl_string (resource fo) else [])"

definition select_param :: "FetchOptions \<Rightarrow> string" where
  "select_param fo =
     (if not_empty_string (columns fo)
      then (if last (''?'' @ limit_param fo @ filter_param fo) = CHR ''?''
            then ''$select='' @ tpl_string (columns fo)
            else ''&$select='' @ tpl_string (columns fo))
      else [])"

definition query_string :: "FetchOptions \<Rightarrow> string" where
  "query_string fo = limit_param fo @ filter_param fo @ select_param fo"

text \<open>Whether a text occurs in another one, at any position.\<close>

fun contains_text :: "string \<Rightarrow> string \<Rightarrow> bool" where
  "contains_text s [] = (s = [])"
| "contains_text s (c # cs) = (take (length s) (c # cs) = s \<or> contains_text s cs)"

section \<open>Fetching and normalising\<close>

subsection \<open>Strings and characters\<close>

text \<open>The position of a character in a text, if it occurs there.\<close>

fun char_index :: "string \<Rightarrow> char \<Rightarrow> nat option" where
  "char_index [] c = None"
| "char_index (x # xs) c = (if x = c then Some 0 else map_option Suc (char_index xs c))"

text \<open>Header names compare case-insensitively: both sides are put in lower case.\<close>

definition toLowerCase_char :: "char \<Rightarrow> char" where
  "toLowerCase_char c =
     (case char_index ''ABCDEFGHIJKLMNOPQRSTUVWXYZ'' c of
        None \<Rightarrow> c
      | Some i \<Rightarrow> ''abcdefghijklmnopqrstuvwxyz'' ! i)"

definition toLowerCase :: "string \<Rightarrow> string" where
  "toLowerCase s = map toLowerCase_char s"

text \<open>
  \<^verbatim>\<open>s.split(',')\<close>: the pieces between the commas; the empty string gives one empty piece.
\<close>

fun split_comma :: "string \<Rightarrow> string list" where
  "split_comma [] = [[]]"
| "split_comma (c # cs) =
     (if c = CHR '','' then [] # split_comma cs
      else (case split_comma cs of [] \<Rightarrow> [[c]] | x # xs \<Rightarrow> (c # x) # xs))"

subsection \<open>JSON.parse\<close>

text \<open>
  \<^verbatim>\<open>JSON.parse\<close> belongs to the language, not to the repository; it is modelled in two passes.
  The first cuts the text into tokens, one character at a time, with a mode that remembers
  an unfinished string, escape, number or literal. The second runs the tokens through a
  stack of the arrays and objects that are still open. Both are total, and any text outside
  the JSON grammar gives a \<^verbatim>\<open>SyntaxError\<close>.

  A \<^verbatim>\<open>\uXXXX\<close> escape is stored as the UTF-8 bytes of its code unit. When a key occurs
  twice in an object, the later value replaces the earlier one.
\<close>

datatype token =
    TLBracket | TRBracket | TLBrace | TRBrace | TColon | TComma
  | TString string | TNumber rat | TTrue | TFalse | TNull

definition is_digit :: "char \<Rightarrow> bool" where
  "is_digit c = (c \<in> set ''0123456789'')"

definition digit_val :: "char \<Rightarrow> nat" where
  "digit_val c = (case char_index ''0123456789'' c of None \<Rightarrow> 0 | Some d \<Rightarrow> d)"

definition hex_val :: "char \<Rightarrow> nat option" where
  "hex_val c = char_index ''0123456789abcdef'' (toLowerCase_char c)"

definition nat_of_digits :: "string \<Rightarrow> nat" where
  "nat_of_digits ds = foldl (\<lambda>n c. 10 * n + digit_val c) 0 ds"

text \<open>
  The value of a number lexeme: an optional minus, digits without a leading zero, an optional
  fraction and an optional exponent; \<open>None\<close> for any other text.
\<close>

definition number_of :: "string \<Rightarrow> rat option" where
  "number_of cs =
     (let neg = (cs \<noteq> [] \<and> hd cs = CHR ''-'');
          cs1 = (if neg then tl cs else cs);
          ds = takeWhile is_digit cs1;
          cs2 = dropWhile is_digit cs1;
          has_frac = (cs2 \<noteq> [] \<and> hd cs2 = CHR ''.'');
          fs = (if has_frac then takeWhile is_digit (tl cs2) else []);
          cs3 = (if has_frac then dropWhile is_digit (tl cs2) else cs2);
          has_exp = (cs3 \<noteq> [] \<and> (hd cs3 = CHR ''e'' \<or> hd cs3 = CHR ''E''));
          cs4 = (if has_exp then tl cs3 else cs3);
          exp_neg = (has_exp \<and> cs4 \<noteq> [] \<and> hd cs4 = CHR ''-'');
          cs5 = (if has_exp \<and> cs4 \<noteq> [] \<and> (hd cs4 = CHR ''-'' \<or> hd cs4 = CHR ''+'')
                 then tl cs4 else cs4);
          es = (if has_exp then takeWhile is_digit cs5 else []);
          cs6 = (if has_exp then dropWhile is_digit cs5 else cs5);
          m = of_nat (nat_of_digits (ds @ fs)) / 10 ^ length fs;
          v = (if exp_neg then m / 10 ^ nat_of_digits es else m * 10 ^ nat_of_digits es)
      in if ds = [] \<or> (1 < length ds \<and> hd ds = CHR ''0'') \<or> (has_frac \<and> fs = [])
            \<or> (has_exp \<and> es = []) \<or> cs6 \<noteq> []
         then None
         else Some (if neg then - v else v))"

definition code_unit :: "nat \<Rightarrow> string" where
  "code_unit n =
     (if n < 128 then [char_of n]
      else if n < 2048 then [char_of (192 + n div 64), char_of (128 + n mod 64)]
      else [char_of (224 + n div 4096), char_of (128 + n div 64 mod 64), char_of (128 + n mod 64)])"

definition escape_char :: "char \<Rightarrow> char option" where
  "escape_char c =
     (if c = CHR 0x22 then Some (CHR 0x22)
      else if c = CHR 0x5C then Some (CHR 0x5C)
      else if c = CHR ''/'' then Some (CHR ''/'')
      else if c = CHR ''b'' then Some (CHR 0x08)
      else if c = CHR ''f'' then Some (CHR 0x0C)
      else if c = CHR ''n'' then Some (CHR 0x0A)
      else if c = CHR ''r'' then Some (CHR 0x0D)
      else if c = CHR ''t'' then Some (CHR 0x09)
      else None)"

text \<open>What the tokenizer is in the middle of.\<close>

datatype lex_mode =
    Top
  | InString string
  | InEscape string
  | InUnicode nat nat string
  | InNumber string
  | InLiteral string token

definition is_whitespace :: "char \<Rightarrow> bool" where
  "is_whitespace c = (c = CHR '' '' \<or> c = CHR 0x09 \<or> c = CHR 0x0A \<or> c = CHR 0x0D)"

text \<open>A character met between tokens: the tokens it completes and the mode it opens.\<close>

definition lex_start :: "char \<Rightarrow> (token list \<times> lex_mode) option" where
  "lex_start c =
     (if is_whitespace c then Some ([], Top)
      else if c = CHR ''['' then Some ([TLBracket], Top)
      else if c = CHR '']'' then Some ([TRBracket], Top)
      else if c = CHR ''{'' then Some ([TLBrace], Top)
      else if c = CHR ''}'' then Some ([TRBrace], Top)
      else if c = CHR '':'' then Some ([TColon], Top)
      else if c = CHR '','' then Some ([TComma], Top)
      else if c = CHR 0x22 then Some ([], InString [])
      else if c = CHR ''-'' \<or> is_digit c then Some ([], InNumber [c])
      else if c = CHR ''t'' then Some ([], InLiteral ''rue'' TTrue)
      else if c = CHR ''f'' then Some ([], InLiteral ''alse'' TFalse)
      else if c = CHR ''n'' then Some ([], InLiteral ''ull'' TNull)
      else None)"

text \<open>
  One character in any mode. A number ends at the first character that cannot belong to
  one; that character is then read as a character between tokens.
\<close>

fun lex_step :: "lex_mode \<Rightarrow> char \<Rightarrow> (token list \<times> lex_mode) option" where
  "lex_step Top c = lex_start c"
| "lex_step (InString acc) c =
     (if c = CHR 0x22 then Some ([TString acc], Top)
      else if c = CHR 0x5C then Some ([], InEscape acc)
      else if (of_char c :: nat) < 32 then None
      else Some ([], InString (acc @ [c])))"
| "lex_step (InEscape acc) c =
     (if c = CHR ''u'' then Some ([], InUnicode 0 0 acc)
      else (case escape_char c of None \<Rightarrow> None | Some x \<Rightarrow> Some ([], InString (acc @ [x]))))"
| "lex_step (InUnicode k n acc) c =
     (case hex_val c of
        None \<Rightarrow> None
      | Some d \<Rightarrow>
          if k = 3 then Some ([], InString (acc @ code_unit (16 * n + d)))
          else Some ([], InUnicode (Suc k) (16 * n + d) acc))"
| "lex_step (InNumber acc) c =
     (if c \<in> set ''0123456789+-.eE'' then Some ([], InNumber (acc @ [c]))
      else (case number_of acc of
              None \<Rightarrow> None
            | Some v \<Rightarrow> (case lex_start c of
                          None \<Rightarrow> None
                        | Some (ts, m) \<Rightarrow> Some (TNumber v # ts, m))))"
| "lex_step (InLiteral rest t) c =
     (case rest of
        [] \<Rightarrow> None
      | x # xs \<Rightarrow> if c \<noteq> x then None
                  else if xs = [] then Some ([t], Top)
                  else Some ([], InLiteral xs t))"

fun lex_end :: "lex_mode \<Rightarrow> token list option" where
  "lex_end Top = Some []"
| "lex_end (InNumber acc) = map_option (\<lambda>v. [TNumber v]) (number_of acc)"
| "lex_end _ = None"

fun lexer :: "lex_mode \<Rightarrow> string \<Rightarrow> token list option" where
  "lexer m [] = lex_end m"
| "lexer m (c # cs) =
     (case lex_step m c of
        None \<Rightarrow> None
      | Some (ts, m') \<Rightarrow> map_option ((@) ts) (lexer m' cs))"

text \<open>
  An open array with its elements so far, or an open object with its members so far and the
  key whose value is being read.
\<close>

datatype frame = FArray "jsval list" | FObject "(string \<times> jsval) list" string

datatype parse_state =
    ExpectValue "frame list"
  | ArrayStart "frame list"
  | AfterElement "jsval list" "frame list"
  | ObjectStart "frame list"
  | ExpectKey "(string \<times> jsval) list" "frame list"
  | ExpectColon "(string \<times> jsval) list" string "frame list"
  | AfterMember "(string \<times> jsval) list" "frame list"
  | Done jsval

fun put_member :: "string \<Rightarrow> jsval \<Rightarrow> (string \<times> jsval) list \<Rightarrow> (string \<times> jsval) list" where
  "put_member k v [] = [(k, v)]"
| "put_member k v ((k', v') # ms) =
     (if k' = k then (k, v) # ms else (k', v') # put_member k v ms)"

text \<open>A value has been read: it is the result, or it goes into the innermost open container.\<close>

fun complete_value :: "jsval \<Rightarrow> frame list \<Rightarrow> parse_state" where
  "complete_value v [] = Done v"
| "complete_value v (FArray xs # st) = AfterElement (xs @ [v]) st"
| "complete_value v (FObject ms k # st) = AfterMember (put_member k v ms) st"

fun value_start :: "token \<Rightarrow> frame list \<Rightarrow> parse_state option" where
  "value_start (TString s) st = Some (complete_value (JString s) st)"
| "value_start (TNumber r) st = Some (complete_value (JNumber r) st)"
| "value_start TTrue st = Some (complete_value (JBool True) st)"
| "value_start TFalse st = Some (complete_value (JBool False) st)"
| "value_start TNull st = Some (complete_value JNull st)"
| "value_start TLBracket st = Some (ArrayStart st)"
| "value_start TLBrace st = Some (ObjectStart st)"
| "value_start _ st = None"

fun parse_step :: "parse_state \<Rightarrow> token \<Rightarrow> parse_state option" where
  "parse_step (ExpectValue st) t = value_start t st"
| "parse_step (ArrayStart st) t =
     (if t = TRBracket then Some (complete_value (JArray []) st) else value_start t (FArray [] # st))"
| "parse_step (AfterElement xs st) t =
     (if t = TComma then Some (ExpectValue (FArray xs # st))
      else if t = TRBracket then Some (complete_value (JArray xs) st)
      else None)"
| "parse_step (ObjectStart st) t =
     (case t of
        TRBrace \<Rightarrow> Some (complete_value (JObject []) st)
      | TString k \<Rightarrow> Some (ExpectColon [] k st)
      | _ \<Rightarrow> None)"
| "parse_step (ExpectKey ms st) t =
     (case t of TString k \<Rightarrow> Some (ExpectColon ms k st) | _ \<Rightarrow> None)"
| "parse_step (ExpectColon ms k st) t =
     (if t = TColon then Some (ExpectValue (FObject ms k # st)) else None)"
| "parse_step (AfterMember ms st) t =
     (if t = TComma then Some (ExpectKey ms st)
      else if t = TRBrace then Some (complete_value (JObject ms) st)
      else None)"
| "parse_step (Done v) t = None"

fun parse_tokens :: "parse_state \<Rightarrow> token list \<Rightarrow> parse_state option" where
  "parse_tokens s [] = Some s"
| "parse_tokens s (t # ts) =
     (case parse_step s t of None \<Rightarrow> None | Some s' \<Rightarrow> parse_tokens s' ts)"

text \<open>The message of the \<^verbatim>\<open>SyntaxError\<close> differs between engines; one text stands for all.\<close>

definition unexpected_token :: error where
  "unexpected_token = SyntaxError ''Unexpected token in JSON''"

definition JSON_parse :: "string \<Rightarrow> error + jsval" where
  "JSON_parse s =
     (case lexer Top s of
        None \<Rightarrow> Inl unexpected_token
      | Some ts \<Rightarrow>
          (case parse_tokens (ExpectValue []) ts of
             Some (Done v) \<Rightarrow> Inr v
           | _ \<Rightarrow> Inl unexpected_token))"

subsection \<open>The HTTP collaborator\<close>

text \<open>
  \<^verbatim>\<open>fetch\<close> is a parameter: a function from the URL to the rejection reason or the response.
  A response has headers, looked up by name without regard to case (\<^verbatim>\<open>null\<close> when absent),
  and a body; \<^verbatim>\<open>text()\<close> is the body and \<^verbatim>\<open>json()\<close> is \<^verbatim>\<open>JSON.parse\<close> of the body.

  The awaits of one \<^verbatim>\<open>get()\<close> run one after the other, so the asynchronous methods are
  sequential functions here. Each returns the client as the call leaves it, the calls to
  \<^verbatim>\<open>fetch\<close> and to \<^verbatim>\<open>console.warn\<close> it made, in order, and the error it rejected with, if
  any.
\<close>

record Response =
  headers :: "(string \<times> string) list"
  body :: string

type_synonym fetch = "string \<Rightarrow> error + Response"

text \<open>
  \<^verbatim>\<open>headers.get(name)\<close>. A name that occurs twice gives its first value; the merging of
  repeated headers is outside the model.
\<close>

definition Headers_get :: "(string \<times> string) list \<Rightarrow> string \<Rightarrow> string option" where
  "Headers_get hs name = map_of (map (\<lambda>(k, v). (toLowerCase k, v)) hs) (toLowerCase name)"

text \<open>What \<^verbatim>\<open>headers.get\<close> returns, as a value: the string, or \<^verbatim>\<open>null\<close>.\<close>

definition header_value :: "string option \<Rightarrow> jsval" where
  "header_value h = (case h of None \<Rightarrow> JNull | Some s \<Rightarrow> JString s)"

text \<open>Truthiness, as \<^verbatim>\<open>!x\<close> tests it.\<close>

fun truthy :: "jsval \<Rightarrow> bool" where
  "truthy JNull = False"
| "truthy (JBool b) = b"
| "truthy (JNumber r) = (r \<noteq> 0)"
| "truthy (JString s) = (s \<noteq> [])"
| "truthy (JArray xs) = True"
| "truthy (JObject ms) = True"

text \<open>What a call does to the outside: a call of \<^verbatim>\<open>fetch\<close> with its URL, a warning on the console.\<close>

datatype event = HttpGet string | ConsoleWarn string

text \<open>\<^verbatim>\<open>catch (error) { throw new Error(error) }\<close>: the message is \<^verbatim>\<open>String(error)\<close>.\<close>

definition wrap_error :: "error \<Rightarrow> error" where
  "wrap_error e = Error (error_toString e)"

text \<open>Calling \<^verbatim>\<open>.split\<close> on the \<^verbatim>\<open>null\<close> of an absent header.\<close>

definition split_of_null :: error where
  "split_of_null = TypeError ''Cannot read properties of null (reading 'split')''"

text \<open>
  \<^verbatim>\<open>_fetchResourceMetadata\<close>: one request to the metadata endpoint of the dataset, its body
  parsed as JSON; every failure is wrapped.
\<close>

definition CMSClient_fetchResourceMetadata ::
    "fetch \<Rightarrow> CMSClient \<Rightarrow> CMSClient \<times> event list \<times> error option" where
  "CMSClient_fetchResourceMetadata fetch c =
     (let metadataUrl = ''https://data.cms.gov/api/views/metadata/v1/'' @ resourceId c
      in case fetch metadataUrl of
           Inl e \<Rightarrow> (c, [HttpGet metadataUrl], Some (wrap_error e))
         | Inr metadata' \<Rightarrow>
             (case JSON_parse (body metadata') of
                Inl e \<Rightarrow> (c, [HttpGet metadataUrl], Some (wrap_error e))
              | Inr v \<Rightarrow>
                  (c\<lparr>fetched := (fetched c)\<lparr>metadata := v\<rparr>\<rparr>, [HttpGet metadataUrl], None)))"

text \<open>
  \<^verbatim>\<open>_fetchResource\<close>. \<^verbatim>\<open>JSON.parse\<close> is given the array that \<^verbatim>\<open>split(',')\<close> returns and
  converts it to a string, which joins the pieces with commas again.
\<close>

definition CMSClient_fetchResource ::
    "fetch \<Rightarrow> CMSClient \<Rightarrow> CMSClient \<times> event list \<times> error option" where
  "CMSClient_fetchResource fetch c =
     (case fetch (url c) of
        Inl e \<Rightarrow> (c, [HttpGet (url c)], Some (wrap_error e))
      | Inr resourceData \<Rightarrow>
          (case Headers_get (headers resourceData) ''x-soda2-fields'' of
             None \<Rightarrow> (c, [HttpGet (url c)], Some (wrap_error split_of_null))
           | Some h \<Rightarrow>
               (case JSON_parse (join (split_comma h)) of
                  Inl e \<Rightarrow> (c, [HttpGet (url c)], Some (wrap_error e))
                | Inr fs \<Rightarrow>
                    (let c1 = c\<lparr>fetched := (fetched c)\<lparr>fields' := fs\<rparr>,
                                isOutdated := header_value
                                  (Headers_get (headers resourceData) ''x-soda2-data-out-of-date''),
                                lastModified := header_value
                                  (Headers_get (headers resourceData) ''Last-Modified'')\<rparr>;
                         (c2, evs, err) =
                           (if includeMetadata (fetchOptions c1) = Some True
                            then CMSClient_fetchResourceMetadata fetch c1
                            else (c1, [], None))
                     in case err of
                          Some e \<Rightarrow> (c2, HttpGet (url c) # evs, Some (wrap_error e))
                        | None \<Rightarrow>
                            if type c2 = ''csv''
                            then (c2\<lparr>fetched := (fetched c2)\<lparr>data := JString (body resourceData)\<rparr>\<rparr>,
                                  HttpGet (url c) # evs, None)
                            else (case JSON_parse (body resourceData) of
                                    Inl e \<Rightarrow> (c2, HttpGet (url c) # evs, Some (wrap_error e))
                                  | Inr v \<Rightarrow>
                                      (c2\<lparr>fetched := (fetched c2)\<lparr>data := v\<rparr>\<rparr>,
                                       HttpGet (url c) # evs, None))))))"

text \<open>
  \<^verbatim>\<open>get\<close>. The test \<^verbatim>\<open>!this.fetched\<close> is on an object, which is always truthy, so the
  error \<^verbatim>\<open>Data not fetched\<close> has no branch here.
\<close>

definition CMSClient_get :: "fetch \<Rightarrow> CMSClient \<Rightarrow> CMSClient \<times> event list \<times> (error + Fetched)" where
  "CMSClient_get fetch c =
     (let (c2, evs, err) = CMSClient_fetchResource fetch (CMSClient_queryBuilder c)
      in case err of
           Some e \<Rightarrow> (c2, evs, Inl e)
         | None \<Rightarrow>
             if \<not> truthy (isOutdated c2)
             then (c2, evs @ [ConsoleWarn ''Data is outdated''], Inr (fetched c2))
             else (c2, evs, Inr (fetched c2)))"

text \<open>Two collaborators: one answers every request with the same response, one rejects every request.\<close>

definition mock_fetch :: "Response \<Rightarrow> fetch" where
  "mock_fetch r u = Inr r"

definition failing_fetch :: "error \<Rightarrow> fetch" where
  "failing_fetch e u = Inl e"

text \<open>The warnings and the requested URLs among the events of a call.\<close>

fun warnings :: "event list \<Rightarrow> string list" where
  "warnings [] = []"
| "warnings (HttpGet u # evs) = warnings evs"
| "warnings (ConsoleWarn m # evs) = m # warnings evs"

fun requests :: "event list \<Rightarrow> string list" where
  "requests [] = []"
| "requests (HttpGet u # evs) = u # requests evs"
| "requests (ConsoleWarn m # evs) = requests evs"

section \<open>Properties of the query builder\<close>

lemma show_nat_digit: "n < 10 \<Longrightarrow> show_nat n = [digit_char n]"
  by (simp add: show_nat.simps)

lemma show_int_5: "show_int 5 = ''5''"
  by (simp add: show_int_def show_nat_digit digit_char_def)

lemma contains_text_iff: "contains_text s t \<longleftrightarrow> (\<exists>p q. t = p @ s @ q)"
proof (induction t)
  case Nil
  then show ?case by auto
next
  case (Cons c cs)
  show ?case
  proof
    assume "contains_text s (c # cs)"
    then consider "take (length s) (c # cs) = s" | "contains_text s cs" by auto
    then show "\<exists>p q. c # cs = p @ s @ q"
    proof cases
      case 1
      then have "c # cs = [] @ s @ drop (length s) (c # cs)"
        by (metis append_Nil append_take_drop_id)
      then show ?thesis by blast
    next
      case 2
      with Cons.IH obtain p q where "cs = p @ s @ q" by blast
      then have "c # cs = (c # p) @ s @ q" by simp
      then show ?thesis by blast
    qed
  next
    assume "\<exists>p q. c # cs = p @ s @ q"
    then obtain p q where pq: "c # cs = p @ s @ q" by blast
    show "contains_text s (c # cs)"
    proof (cases p)
      case Nil
      with pq have "take (length s) (c # cs) = s" by simp
      then show ?thesis by simp
    next
      case (Cons a p')
      with pq have "cs = p' @ s @ q" by simp
      with Cons.IH have "contains_text s cs" by blast
      then show ?thesis by simp
    qed
  qed
qed

text \<open>The incremental concatenation of \<^verbatim>\<open>_queryBuilder\<close> is the stored URL, a \<^verbatim>\<open>?\<close> and the query string.\<close>

lemma last_snoc_query: "last (u @ ''?'' @ q) = last (''?'' @ q)"
  by (cases q rule: rev_cases) simp_all

lemma queryBuilder_url:
  "url (CMSClient_queryBuilder c) = url c @ ''?'' @ query_string (fetchOptions c)"
proof -
  let ?fo = "fetchOptions c"
  have l: "last ((url c @ ''?'' @ limit_param ?fo) @ filter_param ?fo)
           = last (''?'' @ limit_param ?fo @ filter_param ?fo)"
    using last_snoc_query [of "url c" "limit_param ?fo @ filter_param ?fo"] by simp
  have l0: "last (url c @ ''?'') = CHR ''?''" by simp
  show ?thesis
    using l
    by (simp add: CMSClient_queryBuilder_def Let_def query_string_def select_param_def
        limit_param_def filter_param_def)
qed

lemma queryBuilder_fetchOptions:
  "fetchOptions (CMSClient_queryBuilder c) = fetchOptions c"
  by (simp add: CMSClient_queryBuilder_def Let_def)

lemma queryBuilder_other_fields:
  "CMSClient_queryBuilder c = c\<lparr>url := url (CMSClient_queryBuilder c)\<rparr>"
  by (simp add: CMSClient_queryBuilder_def Let_def)

lemma constructor_compose:
  "url (CMSClient_queryBuilder (CMSClient_constructor rid options))
     = ''https://data.cms.gov/resource/'' @ rid @ ''.'' @ output_or_json options @ ''?''"
  by (simp add: queryBuilder_url query_string_def limit_param_def filter_param_def
      select_param_def CMSClient_constructor_def greater_zero_def not_empty_string_def)

text \<open>A successful \<^verbatim>\<open>filter\<close> leaves only the two keys it writes.\<close>

lemma filter_replaces_fetchOptions:
  "col \<noteq> [] \<Longrightarrow> res \<noteq> [] \<Longrightarrow>
   CMSClient_filter col res c =
     (c\<lparr>fetchOptions :=
         \<lparr> output = None, includeMetadata = None, columns = None, filter' = None,
           limit = None, resource = Some res, column = Some col \<rparr>\<rparr>, None)"
  by (simp add: CMSClient_filter_def)

lemma filter_then_compose:
  "col \<noteq> [] \<Longrightarrow> res \<noteq> [] \<Longrightarrow>
   url (CMSClient_queryBuilder (fst (CMSClient_filter col res c)))
     = url c @ ''?&'' @ col @ ''='' @ res
         @ (if last res = CHR ''?'' then ''$select=undefined'' else ''&$select=undefined'')"
  by (simp add: filter_replaces_fetchOptions queryBuilder_url query_string_def limit_param_def
      filter_param_def select_param_def greater_zero_def not_empty_string_def tpl_string_def)

text \<open>With the filter set first, the limit and the columns survive and all three are emitted.\<close>

lemma filter_limit_select_url:
  "url (CMSClient_queryBuilder (CMSClient_select (Str ''name'')
      (CMSClient_limit 5 (fst (CMSClient_filter ''state'' ''CA''
        (CMSClient_constructor ''abcd'' no_options))))))
   = ''https://data.cms.gov/resource/abcd.json?$limit=5&state=CA&$select=name''"
  by (simp add: queryBuilder_url query_string_def limit_param_def filter_param_def
      select_param_def CMSClient_filter_def CMSClient_limit_def CMSClient_constructor_def
      no_options_def output_or_json_def greater_zero_def not_empty_string_def tpl_string_def
      tpl_number_def show_int_5)

subsection \<open>Claims about the builder and the composer\<close>

text \<open>
  C1. The claim: on a fresh client, \<^verbatim>\<open>limit(5)\<close>, then \<^verbatim>\<open>filter("state","CA")\<close>, then
  \<^verbatim>\<open>select("name")\<close>, then composing, gives a URL that contains
  \<^verbatim>\<open>$limit=5&state=CA&$select=name\<close>. The code at this input: \<^verbatim>\<open>filter\<close> replaces the whole of
  \<^verbatim>\<open>fetchOptions\<close>, the limit set before it is lost, and the composed URL is
  \<^verbatim>\<open>https://data.cms.gov/resource/abcd.json?&state=CA&$select=name\<close>, in which neither the
  claimed text nor any \<^verbatim>\<open>$limit\<close> occurs.
\<close>

theorem limit_filter_select_url:
  "url (CMSClient_queryBuilder (CMSClient_select (Str ''name'')
      (fst (CMSClient_filter ''state'' ''CA''
        (CMSClient_limit 5 (CMSClient_constructor ''abcd'' no_options))))))
     = ''https://data.cms.gov/resource/abcd.json?&state=CA&$select=name''
   \<and> \<not> contains_text ''$limit=5&state=CA&$select=name''
         (url (CMSClient_queryBuilder (CMSClient_select (Str ''name'')
            (fst (CMSClient_filter ''state'' ''CA''
              (CMSClient_limit 5 (CMSClient_constructor ''abcd'' no_options)))))))
   \<and> \<not> contains_text ''$limit''
         (url (CMSClient_queryBuilder (CMSClient_select (Str ''name'')
            (fst (CMSClient_filter ''state'' ''CA''
              (CMSClient_limit 5 (CMSClient_constructor ''abcd'' no_options)))))))"
proof -
  have u: "url (CMSClient_queryBuilder (CMSClient_select (Str ''name'')
      (fst (CMSClient_filter ''state'' ''CA''
        (CMSClient_limit 5 (CMSClient_constructor ''abcd'' no_options))))))
     = ''https://data.cms.gov/resource/abcd.json?&state=CA&$select=name''"
    by (simp add: queryBuilder_url query_string_def limit_param_def filter_param_def
        select_param_def CMSClient_filter_def CMSClient_limit_def CMSClient_constructor_def
        no_options_def output_or_json_def greater_zero_def not_empty_string_def tpl_string_def)
  show ?thesis
    unfolding u by simp
qed

text \<open>
  C2. The claim: a successful \<^verbatim>\<open>filter\<close> discards every configured option, so that composing
  afterwards emits no \<^verbatim>\<open>$limit\<close>, emits \<^verbatim>\<open>$select\<close> only if \<^verbatim>\<open>select\<close> is called again, and
  the metadata request is never made. The code at a client built with
  \<^verbatim>\<open>includeMetadata: true\<close>, after \<^verbatim>\<open>select("name")\<close>, \<^verbatim>\<open>limit(5)\<close> and
  \<^verbatim>\<open>filter("state","CA")\<close>: the three options are absent and no \<^verbatim>\<open>$limit\<close> is emitted, but
  the absent \<^verbatim>\<open>columns\<close> is \<^verbatim>\<open>undefined\<close>, which differs from the empty string, and the
  composed URL ends in \<^verbatim>\<open>&$select=undefined\<close> although \<^verbatim>\<open>select\<close> was not called again.
\<close>

theorem filter_then_compose_selects_undefined:
  "fetchOptions (fst (CMSClient_filter ''state'' ''CA''
      (CMSClient_limit 5 (CMSClient_select (Str ''name'')
        (CMSClient_constructor ''abcd'' \<lparr> output = None, includeMetadata = Some True \<rparr>)))))
     = \<lparr> output = None, includeMetadata = None, columns = None, filter' = None,
         limit = None, resource = Some ''CA'', column = Some ''state'' \<rparr>
   \<and> url (CMSClient_queryBuilder (fst (CMSClient_filter ''state'' ''CA''
        (CMSClient_limit 5 (CMSClient_select (Str ''name'')
          (CMSClient_constructor ''abcd'' \<lparr> output = None, includeMetadata = Some True \<rparr>))))))
     = ''https://data.cms.gov/resource/abcd.json?&state=CA&$select=undefined''"
  by (simp add: queryBuilder_url query_string_def limit_param_def filter_param_def
      select_param_def CMSClient_filter_def CMSClient_limit_def CMSClient_constructor_def
      output_or_json_def greater_zero_def not_empty_string_def tpl_string_def)

text \<open>
  One run of the composer leaves the configuration as it is and appends \<^verbatim>\<open>?\<close> and the
  query string of the configuration to the stored URL; the next run starts from that URL.
\<close>

lemma queryBuilder_appends:
  "fetchOptions (CMSClient_queryBuilder c) = fetchOptions c
   \<and> url (CMSClient_queryBuilder c) = url c @ ''?'' @ query_string (fetchOptions c)
   \<and> url (CMSClient_queryBuilder (CMSClient_queryBuilder c))
       = url (CMSClient_queryBuilder c) @ ''?'' @ query_string (fetchOptions c)"
  by (simp add: queryBuilder_url queryBuilder_fetchOptions)

text \<open>
  C3. The claim: composing is idempotent, so that a second run with the state unchanged gives
  the URL of the first and repeats no query parameter. The code on a fresh client after
  \<^verbatim>\<open>limit(5)\<close>: the first run gives \<^verbatim>\<open>https://data.cms.gov/resource/abcd.json?$limit=5\<close>, and
  the second run, which concatenates onto the stored URL, gives
  \<^verbatim>\<open>https://data.cms.gov/resource/abcd.json?$limit=5?$limit=5\<close>. Two calls of \<^verbatim>\<open>get()\<close> on one
  client reach this: the second call requests the doubled URL.
\<close>

theorem queryBuilder_twice_repeats_query:
  \<open>url (CMSClient_queryBuilder (CMSClient_limit 5 (CMSClient_constructor ''abcd'' no_options)))
     = ''https://data.cms.gov/resource/abcd.json?$limit=5''
   \<and> url (CMSClient_queryBuilder (CMSClient_queryBuilder
         (CMSClient_limit 5 (CMSClient_constructor ''abcd'' no_options))))
     = ''https://data.cms.gov/resource/abcd.json?$limit=5?$limit=5''
   \<and> url (CMSClient_queryBuilder (CMSClient_queryBuilder
         (CMSClient_limit 5 (CMSClient_constructor ''abcd'' no_options))))
     \<noteq> url (CMSClient_queryBuilder (CMSClient_limit 5 (CMSClient_constructor ''abcd'' no_options)))
   \<and> requests (fst (snd (CMSClient_get
         (mock_fetch \<lparr>headers = [(''x-soda2-fields'', ''["a"]'')], body = ''[1]''\<rparr>)
         (fst (CMSClient_get
           (mock_fetch \<lparr>headers = [(''x-soda2-fields'', ''["a"]'')], body = ''[1]''\<rparr>)
           (CMSClient_limit 5 (CMSClient_constructor ''abcd'' no_options)))))))
     = [''https://data.cms.gov/resource/abcd.json?$limit=5?$limit=5'']\<close>
proof -
  have once_twice:
    "url (CMSClient_queryBuilder (CMSClient_limit 5 (CMSClient_constructor ''abcd'' no_options)))
       = ''https://data.cms.gov/resource/abcd.json?$limit=5''
     \<and> url (CMSClient_queryBuilder (CMSClient_queryBuilder
           (CMSClient_limit 5 (CMSClient_constructor ''abcd'' no_options))))
       = ''https://data.cms.gov/resource/abcd.json?$limit=5?$limit=5''"
    by (simp add: queryBuilder_url queryBuilder_fetchOptions query_string_def limit_param_def
        filter_param_def select_param_def CMSClient_limit_def CMSClient_constructor_def
        no_options_def output_or_json_def greater_zero_def not_empty_string_def tpl_number_def
        show_int_5)
  have two_gets:
    \<open>requests (fst (snd (CMSClient_get
         (mock_fetch \<lparr>headers = [(''x-soda2-fields'', ''["a"]'')], body = ''[1]''\<rparr>)
         (fst (CMSClient_get
           (mock_fetch \<lparr>headers = [(''x-soda2-fields'', ''["a"]'')], body = ''[1]''\<rparr>)
           (CMSClient_limit 5 (CMSClient_constructor ''abcd'' no_options)))))))
     = [''https://data.cms.gov/resource/abcd.json?$limit=5?$limit=5'']\<close>
    by code_simp
  show ?thesis
    using once_twice two_gets by simp
qed

text \<open>
  C6. \<^verbatim>\<open>filter\<close> with an empty column or an empty value throws the error for missing
  parameters and leaves the client, with its stored filter and the rest of its configuration,
  as it was. With both arguments non-empty it succeeds, and the stored pair is the new one.
\<close>

theorem filter_requires_both_arguments:
  "(col = [] \<or> res = [] \<longrightarrow> CMSClient_filter col res c = (c, Some missing_params))
   \<and> (col \<noteq> [] \<and> res \<noteq> [] \<longrightarrow>
        snd (CMSClient_filter col res c) = None
        \<and> column (fetchOptions (fst (CMSClient_filter col res c))) = Some col
        \<and> resource (fetchOptions (fst (CMSClient_filter col res c))) = Some res)"
  by (auto simp: CMSClient_filter_def)

theorem filter_requires_both_arguments_witness:
  "CMSClient_filter ''col'' []
       (fst (CMSClient_filter ''a'' ''b'' (CMSClient_constructor ''abcd'' no_options)))
     = (fst (CMSClient_filter ''a'' ''b'' (CMSClient_constructor ''abcd'' no_options)),
        Some missing_params)
   \<and> CMSClient_filter [] ''val''
       (fst (CMSClient_filter ''a'' ''b'' (CMSClient_constructor ''abcd'' no_options)))
     = (fst (CMSClient_filter ''a'' ''b'' (CMSClient_constructor ''abcd'' no_options)),
        Some missing_params)
   \<and> snd (CMSClient_filter ''state'' ''CA''
       (fst (CMSClient_filter ''a'' ''b'' (CMSClient_constructor ''abcd'' no_options)))) = None
   \<and> column (fetchOptions (fst (CMSClient_filter ''state'' ''CA''
       (fst (CMSClient_filter ''a'' ''b'' (CMSClient_constructor ''abcd'' no_options))))))
     = Some ''state''
   \<and> resource (fetchOptions (fst (CMSClient_filter ''state'' ''CA''
       (fst (CMSClient_filter ''a'' ''b'' (CMSClient_constructor ''abcd'' no_options))))))
     = Some ''CA''"
  using
    filter_requires_both_arguments [of "''col''" "[]"
      "fst (CMSClient_filter ''a'' ''b'' (CMSClient_constructor ''abcd'' no_options))"]
    filter_requires_both_arguments [of "[]" "''val''"
      "fst (CMSClient_filter ''a'' ''b'' (CMSClient_constructor ''abcd'' no_options))"]
    filter_requires_both_arguments [of "''state''" "''CA''"
      "fst (CMSClient_filter ''a'' ''b'' (CMSClient_constructor ''abcd'' no_options))"]
  by simp

text \<open>
  C7. For a non-empty dataset identifier and no output option, the factory returns a client,
  and composing on it, with no builder call made, gives
  \<^verbatim>\<open>https://data.cms.gov/resource/<id>.json\<close> followed by \<^verbatim>\<open>?\<close> and nothing else.
\<close>

theorem fresh_client_url:
  "rid \<noteq> [] \<Longrightarrow> output options = None \<Longrightarrow>
   createClient rid options = Inr (CMSClient_constructor rid options)
   \<and> url (CMSClient_queryBuilder (CMSClient_constructor rid options))
       = ''https://data.cms.gov/resource/'' @ rid @ ''.json?''"
  by (simp add: createClient_def constructor_compose output_or_json_def)

theorem fresh_client_url_witness:
  "createClient ''abcd'' no_options = Inr (CMSClient_constructor ''abcd'' no_options)
   \<and> url (CMSClient_queryBuilder (CMSClient_constructor ''abcd'' no_options))
       = ''https://data.cms.gov/resource/abcd.json?''"
proof -
  have h: "''abcd'' \<noteq> []" "output no_options = None"
    by (simp_all add: no_options_def)
  show ?thesis
    using fresh_client_url [OF h] by simp
qed

text \<open>
  C8. \<^verbatim>\<open>select\<close> on a list of column names stores what \<^verbatim>\<open>select\<close> on their comma-joined
  string stores, from every client state; so \<^verbatim>\<open>select(["a","b"])\<close> and \<^verbatim>\<open>select("a,b")\<close> give
  the same client and the same composed URL.
\<close>

theorem select_list_is_select_joined:
  "CMSClient_select (Arr xs) c = CMSClient_select (Str (join xs)) c
   \<and> CMSClient_select (Arr [''a'', ''b'']) c = CMSClient_select (Str ''a,b'') c
   \<and> columns (fetchOptions (CMSClient_select (Arr [''a'', ''b'']) c)) = Some ''a,b''
   \<and> url (CMSClient_queryBuilder (CMSClient_select (Arr [''a'', ''b'']) c))
       = url (CMSClient_queryBuilder (CMSClient_select (Str ''a,b'') c))"
  by simp

section \<open>Properties of fetching\<close>

subsection \<open>The parser on small texts\<close>

lemma parse_abc_array:
  \<open>JSON_parse ''["a","b","c"]'' = Inr (JArray [JString ''a'', JString ''b'', JString ''c''])\<close>
  by code_simp

lemma parse_object_array:
  \<open>JSON_parse ''[{"a":1}]'' = Inr (JArray [JObject [(''a'', JNumber 1)]])\<close>
  by code_simp

lemma parse_plain_list_fails: "JSON_parse ''a,b,c'' = Inl unexpected_token"
  by code_simp

lemma parse_nested:
  \<open>JSON_parse '' {"k": [1.5, -2e1, true, null, {}], "k": "v"} '' = Inr (JObject [(''k'', JString ''v'')])\<close>
  by code_simp

lemma parse_rejects:
  \<open>JSON_parse ''[1,]'' = Inl unexpected_token\<close>
  \<open>JSON_parse ''01'' = Inl unexpected_token\<close>
  \<open>JSON_parse ''{"a" 1}'' = Inl unexpected_token\<close>
  \<open>JSON_parse ''"abc'' = Inl unexpected_token\<close>
  \<open>JSON_parse [] = Inl unexpected_token\<close>
  by code_simp+

subsection \<open>Splitting at commas and joining again\<close>

lemma split_comma_not_Nil: "split_comma s \<noteq> []"
  by (induction s) (auto split: list.splits)

lemma join_split_comma: "join (split_comma s) = s"
proof (induction s)
  case Nil
  then show ?case by simp
next
  case (Cons c cs)
  obtain x xs where sp: "split_comma cs = x # xs"
    using split_comma_not_Nil [of cs] by (cases "split_comma cs") auto
  show ?case
  proof (cases "c = CHR '',''")
    case True
    with Cons sp show ?thesis by simp
  next
    case False
    have "join ((c # x) # xs) = c # join (x # xs)"
      by (cases xs) simp_all
    with False Cons sp show ?thesis by simp
  qed
qed

subsection \<open>What a call of \<^verbatim>\<open>get\<close> does\<close>

lemma queryBuilder_type: "type (CMSClient_queryBuilder c) = type c"
  by (simp add: CMSClient_queryBuilder_def Let_def)

lemma warnings_append: "warnings (xs @ ys) = warnings xs @ warnings ys"
  by (induction xs rule: warnings.induct) simp_all

text \<open>The metadata request either stores the parsed document or fails and stores nothing.\<close>

lemma metadata_cases:
  "(\<exists>m. CMSClient_fetchResourceMetadata fetch c
        = (c\<lparr>fetched := (fetched c)\<lparr>metadata := m\<rparr>\<rparr>,
           [HttpGet (''https://data.cms.gov/api/views/metadata/v1/'' @ resourceId c)], None))
   \<or> (\<exists>e. CMSClient_fetchResourceMetadata fetch c
        = (c, [HttpGet (''https://data.cms.gov/api/views/metadata/v1/'' @ resourceId c)], Some e))"
  by (auto simp: CMSClient_fetchResourceMetadata_def Let_def split: sum.splits)

text \<open>
  When \<^verbatim>\<open>_fetchResource\<close> returns normally, the fields header was there and was JSON, the
  header values are stored, and the data are the body, raw or parsed by the format.
\<close>

lemma fetchResource_success:
  assumes ok: "CMSClient_fetchResource fetch c = (c', evs, None)"
    and r: "fetch (url c) = Inr r"
  shows "\<exists>h fs. Headers_get (headers r) ''x-soda2-fields'' = Some h \<and> JSON_parse h = Inr fs
      \<and> fields' (fetched c') = fs
      \<and> isOutdated c' = header_value (Headers_get (headers r) ''x-soda2-data-out-of-date'')
      \<and> lastModified c' = header_value (Headers_get (headers r) ''Last-Modified'')
      \<and> type c' = type c
      \<and> (if type c = ''csv'' then data (fetched c') = JString (body r)
          else JSON_parse (body r) = Inr (data (fetched c')))
      \<and> evs = HttpGet (url c) #
           (if includeMetadata (fetchOptions c) = Some True
            then [HttpGet (''https://data.cms.gov/api/views/metadata/v1/'' @ resourceId c)] else [])"
proof (cases "includeMetadata (fetchOptions c) = Some True")
  case False
  with ok r show ?thesis
    by (auto simp: CMSClient_fetchResource_def Let_def join_split_comma
        split: sum.splits option.splits if_splits)
next
  case True
  obtain h where h: "Headers_get (headers r) ''x-soda2-fields'' = Some h"
    using ok r by (auto simp: CMSClient_fetchResource_def split: option.splits)
  obtain fs where fs: "JSON_parse h = Inr fs"
    using ok r h by (auto simp: CMSClient_fetchResource_def join_split_comma split: sum.splits)
  define c1 where "c1 = c\<lparr>fetched := (fetched c)\<lparr>fields' := fs\<rparr>,
      isOutdated := header_value (Headers_get (headers r) ''x-soda2-data-out-of-date''),
      lastModified := header_value (Headers_get (headers r) ''Last-Modified'')\<rparr>"
  from metadata_cases [of fetch c1] show ?thesis
  proof (elim disjE exE)
    fix m
    assume "CMSClient_fetchResourceMetadata fetch c1
        = (c1\<lparr>fetched := (fetched c1)\<lparr>metadata := m\<rparr>\<rparr>,
           [HttpGet (''https://data.cms.gov/api/views/metadata/v1/'' @ resourceId c1)], None)"
    with ok r h fs True show ?thesis
      by (auto simp: CMSClient_fetchResource_def Let_def join_split_comma c1_def
          split: sum.splits if_splits)
  next
    fix e
    assume "CMSClient_fetchResourceMetadata fetch c1
        = (c1, [HttpGet (''https://data.cms.gov/api/views/metadata/v1/'' @ resourceId c1)], Some e)"
    with ok r h fs True show ?thesis
      by (auto simp: CMSClient_fetchResource_def Let_def join_split_comma c1_def)
  qed
qed

lemma get_success:
  assumes "CMSClient_get fetch c = (c', evs, Inr res)"
  shows "\<exists>evs0. CMSClient_fetchResource fetch (CMSClient_queryBuilder c) = (c', evs0, None)
      \<and> res = fetched c'
      \<and> evs = evs0 @ (if truthy (isOutdated c') then [] else [ConsoleWarn ''Data is outdated''])"
  using assms
  by (auto simp: CMSClient_get_def Let_def split: prod.splits option.splits if_splits)

text \<open>Without a truthy \<^verbatim>\<open>includeMetadata\<close>, a call of \<^verbatim>\<open>get\<close> makes the data request only.\<close>

lemma get_requests_without_metadata:
  "includeMetadata (fetchOptions c) \<noteq> Some True \<Longrightarrow>
   requests (fst (snd (CMSClient_get fetch c))) = [url (CMSClient_queryBuilder c)]"
  by (auto simp: CMSClient_get_def CMSClient_fetchResource_def Let_def queryBuilder_fetchOptions
      split: sum.splits option.splits)

lemma filter_then_get_requests:
  "col \<noteq> [] \<Longrightarrow> res \<noteq> [] \<Longrightarrow>
   requests (fst (snd (CMSClient_get fetch (fst (CMSClient_filter col res c)))))
     = [url (CMSClient_queryBuilder (fst (CMSClient_filter col res c)))]"
  by (rule get_requests_without_metadata) (simp add: filter_replaces_fetchOptions)

subsection \<open>Claims about fetching\<close>

text \<open>
  C4, as amended. The fields header is parsed as JSON. When the collaborator's response
  carries the header \<^verbatim>\<open>x-soda2-fields\<close> with the JSON text \<^verbatim>\<open>["a","b","c"]\<close> as its value and
  the body \<^verbatim>\<open>[{"a":1}]\<close>, then \<^verbatim>\<open>get()\<close>, on a client of any format but csv, resolves to a
  result whose fields are the list of \<^verbatim>\<open>a\<close>, \<^verbatim>\<open>b\<close>, \<^verbatim>\<open>c\<close> and whose data are the parsed array.
\<close>

theorem get_fields_from_json_header:
  assumes t: "type c \<noteq> ''csv''"
    and h: \<open>Headers_get (headers r) ''x-soda2-fields'' = Some ''["a","b","c"]''\<close>
    and b: \<open>body r = ''[{"a":1}]''\<close>
  shows "\<exists>res. snd (snd (CMSClient_get (mock_fetch r) c)) = Inr res
      \<and> fields' res = JArray [JString ''a'', JString ''b'', JString ''c'']
      \<and> data res = JArray [JObject [(''a'', JNumber 1)]]"
  using t h b
  by (auto simp: CMSClient_get_def CMSClient_fetchResource_def CMSClient_fetchResourceMetadata_def
      mock_fetch_def Let_def join_split_comma parse_abc_array parse_object_array
      queryBuilder_type)

theorem get_fields_from_json_header_witness:
  \<open>\<exists>res. snd (snd (CMSClient_get
        (mock_fetch \<lparr>headers = [(''x-soda2-fields'', ''["a","b","c"]'')], body = ''[{"a":1}]''\<rparr>)
        (CMSClient_constructor ''abcd'' no_options))) = Inr res
      \<and> fields' res = JArray [JString ''a'', JString ''b'', JString ''c'']
      \<and> data res = JArray [JObject [(''a'', JNumber 1)]]\<close>
proof -
  have t: "type (CMSClient_constructor ''abcd'' no_options) \<noteq> ''csv''"
    by (simp add: CMSClient_constructor_def no_options_def output_or_json_def)
  have h: \<open>Headers_get
      (headers \<lparr>headers = [(''x-soda2-fields'', ''["a","b","c"]'')], body = ''[{"a":1}]''\<rparr>)
      ''x-soda2-fields'' = Some ''["a","b","c"]''\<close>
    by code_simp
  have b: \<open>body \<lparr>headers = [(''x-soda2-fields'', ''["a","b","c"]'')], body = ''[{"a":1}]''\<rparr>
      = ''[{"a":1}]''\<close>
    by simp
  show ?thesis
    using get_fields_from_json_header [OF t h b] .
qed

text \<open>
  The claim as stated fails. With the header value \<^verbatim>\<open>a,b,c\<close> the text given to
  \<^verbatim>\<open>JSON.parse\<close> is not JSON and \<^verbatim>\<open>get()\<close> rejects; with the value written in double quotes,
  \<^verbatim>\<open>"a,b,c"\<close>, it resolves, and the fields are the one string \<^verbatim>\<open>a,b,c\<close>, not a list.
\<close>

theorem get_fields_plain_list_counterexample:
  \<open>snd (snd (CMSClient_get
      (mock_fetch \<lparr>headers = [(''x-soda2-fields'', ''a,b,c'')], body = ''[{"a":1}]''\<rparr>)
      (CMSClient_constructor ''abcd'' no_options)))
    = Inl (Error ''SyntaxError: Unexpected token in JSON'')
   \<and> snd (snd (CMSClient_get
      (mock_fetch \<lparr>headers = [(''x-soda2-fields'', ''"a,b,c"'')], body = ''[{"a":1}]''\<rparr>)
      (CMSClient_constructor ''abcd'' no_options)))
    = Inr \<lparr>metadata = JObject [], fields' = JString ''a,b,c'',
           data = JArray [JObject [(''a'', JNumber 1)]]\<rparr>\<close>
  by code_simp

text \<open>
  C5. When the data request fails, \<^verbatim>\<open>get()\<close> rejects with an error that wraps the reason, and
  returns no result. The data request is the only call of \<^verbatim>\<open>fetch\<close> it made: the metadata
  request is not made, whatever \<^verbatim>\<open>includeMetadata\<close> is. The client is as the composer left it.
\<close>

theorem get_rejects_when_request_fails:
  "fetch (url (CMSClient_queryBuilder c)) = Inl e \<Longrightarrow>
   CMSClient_get fetch c
     = (CMSClient_queryBuilder c, [HttpGet (url (CMSClient_queryBuilder c))],
        Inl (Error (error_toString e)))"
  by (simp add: CMSClient_get_def CMSClient_fetchResource_def wrap_error_def)

theorem get_rejects_when_request_fails_witness:
  "CMSClient_get (failing_fetch (TypeError ''Failed to fetch''))
      (CMSClient_constructor ''abcd'' \<lparr> output = None, includeMetadata = Some True \<rparr>)
     = (CMSClient_queryBuilder
          (CMSClient_constructor ''abcd'' \<lparr> output = None, includeMetadata = Some True \<rparr>),
        [HttpGet ''https://data.cms.gov/resource/abcd.json?''],
        Inl (Error ''TypeError: Failed to fetch''))
    \<and> includeMetadata (fetchOptions
          (CMSClient_constructor ''abcd'' \<lparr> output = None, includeMetadata = Some True \<rparr>))
        = Some True"
proof -
  have f: "failing_fetch (TypeError ''Failed to fetch'')
      (url (CMSClient_queryBuilder
        (CMSClient_constructor ''abcd'' \<lparr> output = None, includeMetadata = Some True \<rparr>)))
      = Inl (TypeError ''Failed to fetch'')"
    by (simp add: failing_fetch_def)
  show ?thesis
    using get_rejects_when_request_fails
      [of "failing_fetch (TypeError ''Failed to fetch'')"
        "CMSClient_constructor ''abcd'' \<lparr> output = None, includeMetadata = Some True \<rparr>"
        "TypeError ''Failed to fetch''", OF f]
    by (simp add: constructor_compose output_or_json_def name_message_def)
      (simp add: CMSClient_constructor_def)
qed

text \<open>
  C9. When \<^verbatim>\<open>get()\<close> resolves, the data of its result are the body of the response as raw text
  if the format of the client is \<^verbatim>\<open>csv\<close>, and the JSON value parsed from the body for every
  other format.
\<close>

theorem get_data_by_format:
  assumes r: "fetch (url (CMSClient_queryBuilder c)) = Inr r"
    and res: "snd (snd (CMSClient_get fetch c)) = Inr res"
  shows "(type c = ''csv'' \<longrightarrow> data res = JString (body r))
       \<and> (type c \<noteq> ''csv'' \<longrightarrow> JSON_parse (body r) = Inr (data res))"
proof -
  obtain c' evs where g: "CMSClient_get fetch c = (c', evs, Inr res)"
    using res by (cases "CMSClient_get fetch c") auto
  from get_success [OF g] obtain evs0 where
    f: "CMSClient_fetchResource fetch (CMSClient_queryBuilder c) = (c', evs0, None)"
    and eq: "res = fetched c'" by blast
  from fetchResource_success [OF f r] show ?thesis
    by (auto simp: eq queryBuilder_type split: if_splits)
qed

theorem get_data_by_format_witness:
  \<open>snd (snd (CMSClient_get
        (mock_fetch \<lparr>headers = [(''x-soda2-fields'', ''["a","b"]'')], body = ''a,b''\<rparr>)
        (CMSClient_constructor ''abcd'' \<lparr> output = Some ''csv'', includeMetadata = None \<rparr>)))
      = Inr \<lparr>metadata = JObject [], fields' = JArray [JString ''a'', JString ''b''],
             data = JString ''a,b''\<rparr>
    \<and> snd (snd (CMSClient_get
        (mock_fetch \<lparr>headers = [(''x-soda2-fields'', ''["a","b"]'')], body = ''[1]''\<rparr>)
        (CMSClient_constructor ''abcd'' no_options)))
      = Inr \<lparr>metadata = JObject [], fields' = JArray [JString ''a'', JString ''b''],
             data = JArray [JNumber 1]\<rparr>
    \<and> JSON_parse ''[1]'' = Inr (JArray [JNumber 1])\<close>
proof -
  let ?r1 = \<open>\<lparr>headers = [(''x-soda2-fields'', ''["a","b"]'')], body = ''a,b''\<rparr>\<close>
  let ?c1 = "CMSClient_constructor ''abcd'' \<lparr> output = Some ''csv'', includeMetadata = None \<rparr>"
  let ?r2 = \<open>\<lparr>headers = [(''x-soda2-fields'', ''["a","b"]'')], body = ''[1]''\<rparr>\<close>
  let ?c2 = "CMSClient_constructor ''abcd'' no_options"
  have f1: "mock_fetch ?r1 (url (CMSClient_queryBuilder ?c1)) = Inr ?r1"
    by (simp add: mock_fetch_def)
  have g1: "snd (snd (CMSClient_get (mock_fetch ?r1) ?c1))
      = Inr \<lparr>metadata = JObject [], fields' = JArray [JString ''a'', JString ''b''],
             data = JString ''a,b''\<rparr>"
    by code_simp
  have f2: "mock_fetch ?r2 (url (CMSClient_queryBuilder ?c2)) = Inr ?r2"
    by (simp add: mock_fetch_def)
  have g2: "snd (snd (CMSClient_get (mock_fetch ?r2) ?c2))
      = Inr \<lparr>metadata = JObject [], fields' = JArray [JString ''a'', JString ''b''],
             data = JArray [JNumber 1]\<rparr>"
    by code_simp
  have t2: "type ?c2 \<noteq> ''csv''"
    by (simp add: CMSClient_constructor_def no_options_def output_or_json_def)
  show ?thesis
    using get_data_by_format [OF f1 g1] get_data_by_format [OF f2 g2] g1 g2 t2
    by simp
qed

text \<open>
  C10. When \<^verbatim>\<open>get()\<close> resolves, it has warned \<^verbatim>\<open>Data is outdated\<close>, once, exactly when the
  value read from the header \<^verbatim>\<open>x-soda2-data-out-of-date\<close> is falsy, that is, when the header
  is absent or empty; when the header marks the data out of date, it has not warned.
\<close>

theorem warning_iff_not_outdated:
  assumes r: "fetch (url (CMSClient_queryBuilder c)) = Inr r"
    and res: "snd (snd (CMSClient_get fetch c)) = Inr res"
  shows "warnings (fst (snd (CMSClient_get fetch c)))
       = (if truthy (header_value (Headers_get (headers r) ''x-soda2-data-out-of-date''))
          then [] else [''Data is outdated''])"
proof -
  obtain c' evs where g: "CMSClient_get fetch c = (c', evs, Inr res)"
    using res by (cases "CMSClient_get fetch c") auto
  from get_success [OF g] obtain evs0 where
    f: "CMSClient_fetchResource fetch (CMSClient_queryBuilder c) = (c', evs0, None)"
    and evs: "evs = evs0 @ (if truthy (isOutdated c') then [] else [ConsoleWarn ''Data is outdated''])"
    by blast
  from fetchResource_success [OF f r] have
    o: "isOutdated c' = header_value (Headers_get (headers r) ''x-soda2-data-out-of-date'')"
    and w0: "warnings evs0 = []"
    by auto
  show ?thesis
    by (simp add: g evs warnings_append w0 o)
qed

theorem warning_iff_not_outdated_witness:
  \<open>warnings (fst (snd (CMSClient_get
        (mock_fetch \<lparr>headers = [(''x-soda2-fields'', ''["a","b"]'')], body = ''[1]''\<rparr>)
        (CMSClient_constructor ''abcd'' no_options))))
      = [''Data is outdated'']
    \<and> warnings (fst (snd (CMSClient_get
        (mock_fetch \<lparr>headers = [(''x-soda2-fields'', ''["a","b"]''),
                                (''x-soda2-data-out-of-date'', ''true'')], body = ''[1]''\<rparr>)
        (CMSClient_constructor ''abcd'' no_options))))
      = []\<close>
proof -
  let ?r1 = \<open>\<lparr>headers = [(''x-soda2-fields'', ''["a","b"]'')], body = ''[1]''\<rparr>\<close>
  let ?r2 = \<open>\<lparr>headers = [(''x-soda2-fields'', ''["a","b"]''),
                          (''x-soda2-data-out-of-date'', ''true'')], body = ''[1]''\<rparr>\<close>
  let ?c = "CMSClient_constructor ''abcd'' no_options"
  have f1: "mock_fetch ?r1 (url (CMSClient_queryBuilder ?c)) = Inr ?r1"
    by (simp add: mock_fetch_def)
  have g1: "snd (snd (CMSClient_get (mock_fetch ?r1) ?c))
      = Inr \<lparr>metadata = JObject [], fields' = JArray [JString ''a'', JString ''b''],
             data = JArray [JNumber 1]\<rparr>"
    by code_simp
  have h1: \<open>Headers_get [(''x-soda2-fields'', ''["a","b"]'')] ''x-soda2-data-out-of-date'' = None\<close>
    by code_simp
  have f2: "mock_fetch ?r2 (url (CMSClient_queryBuilder ?c)) = Inr ?r2"
    by (simp add: mock_fetch_def)
  have g2: "snd (snd (CMSClient_get (mock_fetch ?r2) ?c))
      = Inr \<lparr>metadata = JObject [], fields' = JArray [JString ''a'', JString ''b''],
             data = JArray [JNumber 1]\<rparr>"
    by code_simp
  have h2: \<open>Headers_get [(''x-soda2-fields'', ''["a","b"]''),
      (''x-soda2-data-out-of-date'', ''true'')] ''x-soda2-data-out-of-date'' = Some ''true''\<close>
    by code_simp
  show ?thesis
    using warning_iff_not_outdated [OF f1 g1] warning_iff_not_outdated [OF f2 g2]
    by (simp add: h1 h2 header_value_def)
qed

end
